theory Spec2Isabelle
  imports Main
begin

section \<open>Data fetched from the hosting API\<close>

text \<open>
  The \<open>GetPRs\<close> query of \<open>validateMilestonesCommand.mjs\<close> asks, for each open
  milestone, for \<open>id\<close>, \<open>title\<close>, \<open>pullRequests.pageInfo.hasNextPage\<close> and the pull
  requests \<open>id\<close>, \<open>number\<close>, \<open>title\<close>, \<open>mergeCommit.message\<close>. The query does not
  filter the pull requests by state, and \<open>mergeCommit\<close> is \<open>null\<close> for a pull request
  that is not merged: \<open>mergeCommit\<close> is the message of the merge commit, or \<open>None\<close>.
  The calls to the hosting API and to the helpers of \<open>releaseLib.mjs\<close> are taken to
  return.
\<close>

record pr_node =
  pr_id :: string
  pr_number :: nat
  pr_title :: string

record pull_request = pr_node +
  mergeCommit :: "string option"

record milestone_node =
  ms_id :: string
  ms_title :: string
  hasNextPage :: bool
  pullRequests_nodes :: "pull_request list"

text \<open>
  The object \<open>{ ...pr, milestone: milestone.title }\<close> built by the handler, once
  \<open>pr.mergeCommit.message\<close> has been read and cut to its first line.
\<close>

record milestoned_pr = pr_node +
  mergeCommit_message :: string
  milestone :: string

section \<open>JavaScript primitives used by the handler\<close>

text \<open>\<open>s.split(sep)\<close> for a one-character separator: never an empty array.\<close>

fun js_split :: "char \<Rightarrow> string \<Rightarrow> string list" where
  "js_split sep [] = [[]]"
| "js_split sep (c # cs) =
     (if c = sep then [] # js_split sep cs
      else (case js_split sep cs of
              [] \<Rightarrow> [[c]]
            | w # ws \<Rightarrow> (c # w) # ws))"

text \<open>\<open>xs[i]\<close>: \<open>None\<close> is JavaScript's \<open>undefined\<close> of an index out of range.\<close>

definition js_index :: "'a list \<Rightarrow> nat \<Rightarrow> 'a option" where
  "js_index xs i = (if i < length xs then Some (xs ! i) else None)"

text \<open>\<open>xs.join(sep)\<close> on an array of strings.\<close>

fun js_join :: "string \<Rightarrow> string list \<Rightarrow> string" where
  "js_join sep [] = []"
| "js_join sep [x] = x"
| "js_join sep (x # y # ys) = x @ sep @ js_join sep (y # ys)"

text \<open>\<open>message.split('\n').shift()\<close>: the first line of the message.\<close>

definition first_line :: "string \<Rightarrow> string" where
  "first_line message =
     (case js_split (CHR 0x0A) message of
        w # _ \<Rightarrow> w
      | [] \<Rightarrow> [])"

text \<open>
  A plain object \<open>{}\<close> used as a dictionary from strings to strings. Its own properties
  are a map; a key that is not an own property is looked up in \<open>Object.prototype\<close>,
  whose members are listed here. Assigning a string to \<open>__proto__\<close> is ignored by the
  setter and creates no own property.
\<close>

datatype js_value = Undefined | Str string | Inherited string

definition Object_prototype :: "string list" where
  "Object_prototype =
     [''constructor'', ''__defineGetter__'', ''__defineSetter__'', ''hasOwnProperty'',
      ''__lookupGetter__'', ''__lookupSetter__'', ''isPrototypeOf'',
      ''propertyIsEnumerable'', ''toString'', ''valueOf'', ''__proto__'',
      ''toLocaleString'']"

definition js_set :: "(string \<rightharpoonup> string) \<Rightarrow> string \<Rightarrow> string \<Rightarrow> (string \<rightharpoonup> string)" where
  "js_set obj k v = (if k = ''__proto__'' then obj else obj(k \<mapsto> v))"

definition js_get :: "(string \<rightharpoonup> string) \<Rightarrow> string \<Rightarrow> js_value" where
  "js_get obj k =
     (case obj k of
        Some v \<Rightarrow> Str v
      | None \<Rightarrow> if k \<in> set Object_prototype then Inherited k else Undefined)"

text \<open>A property key that is \<open>undefined\<close> is the string \<open>"undefined"\<close>.\<close>

definition property_key :: "string option \<Rightarrow> string" where
  "property_key k = (case k of None \<Rightarrow> ''undefined'' | Some s \<Rightarrow> s)"

section \<open>What the run does to the outside\<close>

datatype query = GetOpenCherryPickPRsQuery | GetPRs

text \<open>
  The effects of a run, in order: console messages, GraphQL queries, the helper calls
  with a side effect, the prompts shown to the operator, the two status lines printed
  for a pull request (with \<open>ok\<close> as \<open>True\<close> and \<open>error\<close> as \<open>False\<close>), the browser
  opened on a pull request, and the \<open>MilestonePullRequest\<close> mutation with its two
  variables. Blank lines, the separator, the header printed by \<open>logSection\<close> and
  colours are left out.
\<close>

datatype effect =
    Log string
  | Graphql query
  | OpenCherryPickPRs
  | Question string
  | UpdateRemotes
  | GetReleaseBranch
  | Report milestoned_pr "string option" bool
  | OpenPR nat
  | Fixing nat "string option"
  | MilestonePullRequest string js_value

text \<open>
  How the handler ends: \<open>process.exit(n)\<close>, a normal return, a \<open>TypeError\<close> that
  nothing catches, or never (it waits for an answer the operator does not give).
\<close>

datatype outcome = Exit nat | Returned | Throws | Hangs

text \<open>
  The exit code of the process: 0 after a normal return, 1 after an uncaught error,
  none while the handler waits.
\<close>

definition exit_code :: "outcome \<Rightarrow> nat option" where
  "exit_code out =
     (case out of Exit n \<Rightarrow> Some n | Returned \<Rightarrow> Some 0 | Throws \<Rightarrow> Some 1 | Hangs \<Rightarrow> None)"

section \<open>The parts of the run the handler does not decide\<close>

text \<open>
  \<open>isYes\<close>, \<open>sanitizeMessage\<close> and \<open>isCommitInRef\<close> are imported from
  \<open>releaseLib.mjs\<close>; they are parameters here.
\<close>

record releaseLib =
  isYes :: "string \<Rightarrow> bool"
  sanitizeMessage :: "string \<Rightarrow> string"
  isCommitInRef :: "string \<Rightarrow> string \<Rightarrow> bool"

text \<open>
  The environment of one run: the credential, the answers of the two queries, the
  value of \<open>getReleaseBranch()\<close>, the messages of the commits of
  \<open>getReleaseCommits().releaseCommits\<close>, and the lines the operator types, in order.
\<close>

record world =
  GITHUB_TOKEN :: "string option"
  totalCount :: int
  nodes :: "milestone_node list"
  releaseBranch :: string
  releaseCommits :: "string list"
  answers :: "string list"

text \<open>What \<open>makeValidateMilestone\<close> is bound to (\<open>octokit\<close> is the effect itself).\<close>

record binding =
  prompt :: bool
  milestoneTitlesToIds :: "string \<rightharpoonup> string"

section \<open>The command\<close>

definition IGNORE_LIST :: "string list" where
  "IGNORE_LIST =
     [''PR_kwDOC2M2f85AxHWK'', ''PR_kwDOC2M2f85Axh0g'', ''PR_kwDOC2M2f85A0cDn'',
      ''PR_kwDOC2M2f85CiaV_'']"

text \<open>\<open>!process.env.GITHUB_TOKEN\<close>: unset or the empty string.\<close>

definition no_token :: "world \<Rightarrow> bool" where
  "no_token w = (case GITHUB_TOKEN w of None \<Rightarrow> True | Some t \<Rightarrow> t = [])"

text \<open>\<open>releaseCommits.some((commit) => commit.message === message)\<close>.\<close>

definition isCommitInReleaseBranch :: "world \<Rightarrow> string \<Rightarrow> bool" where
  "isCommitInReleaseBranch w message = list_ex (\<lambda>commit. commit = message) (releaseCommits w)"

text \<open>
  One pass through the body of \<open>while (true)\<close> once \<open>answer\<close> is known: \<open>continue\<close>
  or \<open>break\<close>, with the effects of the pass.
\<close>

datatype pass = Continue "effect list" | Break "effect list"

definition loop_body :: "releaseLib \<Rightarrow> binding \<Rightarrow> milestoned_pr \<Rightarrow> string option \<Rightarrow> string \<Rightarrow> pass" where
  "loop_body lib ctx pr expected answer =
     (if answer \<in> set [''open'', ''o''] then Continue [OpenPR (pr_number pr)]
      else Break
        ((if isYes lib answer
          then [Fixing (pr_number pr) expected,
                MilestonePullRequest (pr_id pr)
                  (js_get (milestoneTitlesToIds ctx) (property_key expected))]
          else [])
         @ [Log ''done'']))"

definition fix_question :: string where
  "fix_question = ''  ok to fix? [Y/n/o(pen)] > ''"

text \<open>
  The loop when \<open>this.prompt\<close> holds: every pass reads one answer. The result is the
  answers left (\<open>None\<close> when the loop is still waiting for one) and the effects.
\<close>

fun ask_loop :: "releaseLib \<Rightarrow> binding \<Rightarrow> milestoned_pr \<Rightarrow> string option \<Rightarrow> string list
    \<Rightarrow> string list option \<times> effect list" where
  "ask_loop lib ctx pr expected [] = (None, [Question fix_question])"
| "ask_loop lib ctx pr expected (answer # rest) =
     (case loop_body lib ctx pr expected answer of
        Continue es \<Rightarrow>
          (case ask_loop lib ctx pr expected rest of
             (r, es') \<Rightarrow> (r, Question fix_question # es @ es'))
      | Break es \<Rightarrow> (Some rest, Question fix_question # es))"

text \<open>
  The loop when \<open>this.prompt\<close> does not hold: \<open>answer\<close> stays \<open>'y'\<close>, so a pass that
  continues would be repeated forever.
\<close>

definition default_loop :: "releaseLib \<Rightarrow> binding \<Rightarrow> milestoned_pr \<Rightarrow> string option \<Rightarrow> string list
    \<Rightarrow> string list option \<times> effect list" where
  "default_loop lib ctx pr expected inputs =
     (case loop_body lib ctx pr expected ''y'' of
        Continue es \<Rightarrow> (None, es)
      | Break es \<Rightarrow> (Some inputs, es))"

definition makeValidateMilestone :: "releaseLib \<Rightarrow> binding \<Rightarrow> milestoned_pr \<Rightarrow> string option
    \<Rightarrow> string list \<Rightarrow> string list option \<times> effect list" where
  "makeValidateMilestone lib ctx pr expected inputs =
     (let hasCorrectMilestone = (Some (milestone pr) = expected) in
      if hasCorrectMilestone
      then (Some inputs, [Report pr expected True, Log ''done''])
      else (case (if prompt ctx then ask_loop lib ctx pr expected inputs
                  else default_loop lib ctx pr expected inputs) of
              (r, es) \<Rightarrow> (r, Report pr expected False # es)))"

text \<open>The three tests of the \<open>for\<close> loop, in the order of the source.\<close>

definition expected_milestone :: "releaseLib \<Rightarrow> world \<Rightarrow> milestoned_pr \<Rightarrow> string option" where
  "expected_milestone lib w pr =
     (if isCommitInReleaseBranch w (mergeCommit_message pr)
      then js_index (js_split CHR ''/'' (releaseBranch w)) 2
      else if isCommitInRef lib ''next'' (sanitizeMessage lib (mergeCommit_message pr))
      then Some ''next-release''
      else Some ''v4.0.0'')"

text \<open>\<open>for (const pr of prs)\<close>.\<close>

fun for_prs :: "releaseLib \<Rightarrow> binding \<Rightarrow> world \<Rightarrow> milestoned_pr list \<Rightarrow> string list
    \<Rightarrow> outcome \<times> effect list" where
  "for_prs lib ctx w [] inputs = (Returned, [])"
| "for_prs lib ctx w (pr # prs) inputs =
     (case makeValidateMilestone lib ctx pr (expected_milestone lib w pr) inputs of
        (None, es) \<Rightarrow> (Hangs, es)
      | (Some rest, es) \<Rightarrow>
          (case for_prs lib ctx w prs rest of (out, es') \<Rightarrow> (out, es @ es')))"

text \<open>\<open>nodes.filter((node) => node.title !== 'chore')\<close>.\<close>

definition validated_nodes :: "milestone_node list \<Rightarrow> milestone_node list" where
  "validated_nodes ns = filter (\<lambda>node. ms_title node \<noteq> ''chore'') ns"

text \<open>
  The callback of the inner \<open>map\<close>: reading \<open>pr.mergeCommit.message\<close> throws a
  \<open>TypeError\<close> when \<open>mergeCommit\<close> is \<open>null\<close>; \<open>None\<close> is that throw.
\<close>

definition with_milestone :: "milestone_node \<Rightarrow> pull_request \<Rightarrow> milestoned_pr option" where
  "with_milestone m pr =
     (case mergeCommit pr of
        None \<Rightarrow> None
      | Some message \<Rightarrow>
          Some \<lparr>pr_id = pr_id pr, pr_number = pr_number pr, pr_title = pr_title pr,
                mergeCommit_message = first_line message, milestone = ms_title m\<rparr>)"

text \<open>
  The \<open>flatMap\<close> and the \<open>filter\<close> that build \<open>prs\<close>. The callback runs on every pull
  request of every milestone before the filter on the ignore list; one throw ends the
  whole expression.
\<close>

definition collect_prs :: "milestone_node list \<Rightarrow> milestoned_pr list option" where
  "collect_prs ns =
     map_option (filter (\<lambda>pr. pr_id pr \<notin> set IGNORE_LIST))
       (those (concat (map (\<lambda>m. map (with_milestone m) (pullRequests_nodes m)) ns)))"

text \<open>The \<open>reduce\<close> that builds \<open>milestoneTitlesToIds\<close>, from the empty object.\<close>

definition titles_to_ids :: "milestone_node list \<Rightarrow> (string \<rightharpoonup> string)" where
  "titles_to_ids ns = foldl (\<lambda>obj m. js_set obj (ms_title m) (ms_id m)) Map.empty ns"

definition review_question :: "milestone_node list \<Rightarrow> string" where
  "review_question ns =
     ''Ok to review PRs in milestone '' @ js_join '', '' (map ms_title ns) @ '' ? [Y/n/] > ''"

definition review_hint :: string where
  "review_hint =
     ''If you see more than one version here (e.g. v3.6.0 and v3.5.0), you need to close the older one(s)''
     @ [CHR 0x0A]"

text \<open>
  The handler. The line after \<open>answer === 'n'\<close> awaits a plain template string (there is
  no \<open>$\<close> before it), so nothing is opened there. A throw while \<open>prs\<close> is built comes
  after \<open>updateRemotes()\<close> and before \<open>getReleaseBranch()\<close>.
\<close>

definition handler :: "releaseLib \<Rightarrow> bool \<Rightarrow> world \<Rightarrow> outcome \<times> effect list" where
  "handler lib prompt_flag w =
     (if no_token w
      then (Exit 1, [Log ''You have to set the GITHUB_TOKEN env var''])
      else if totalCount w > 0
      then (Exit 1,
            [Graphql GetOpenCherryPickPRsQuery,
             Log ''There are open cherry-pick PRs; get them merged before continuing'',
             OpenCherryPickPRs])
      else
        (let ns = validated_nodes (nodes w) in
         if \<not> list_all (\<lambda>m. \<not> hasNextPage m) ns
         then (Exit 1,
               [Graphql GetOpenCherryPickPRsQuery, Graphql GetPRs,
                Log ''A milestone has a next page (i.e. a lot of PRs); this script needs to be updated''])
         else
           (case answers w of
              [] \<Rightarrow>
                (Hangs,
                 [Graphql GetOpenCherryPickPRsQuery, Graphql GetPRs, Log review_hint,
                  Question (review_question ns)])
            | answer # rest \<Rightarrow>
                if answer = ''n''
                then (Exit 1,
                      [Graphql GetOpenCherryPickPRsQuery, Graphql GetPRs, Log review_hint,
                       Question (review_question ns)])
                else
                  (case collect_prs ns of
                     None \<Rightarrow>
                       (Throws,
                        [Graphql GetOpenCherryPickPRsQuery, Graphql GetPRs, Log review_hint,
                         Question (review_question ns), UpdateRemotes])
                   | Some prs \<Rightarrow>
                       (case for_prs lib
                               \<lparr>prompt = prompt_flag, milestoneTitlesToIds = titles_to_ids ns\<rparr>
                               w prs rest of
                          (out, es) \<Rightarrow>
                            (out,
                             [Graphql GetOpenCherryPickPRsQuery, Graphql GetPRs,
                              Log review_hint, Question (review_question ns), UpdateRemotes,
                              GetReleaseBranch]
                             @ es))))))"

section \<open>The label gate\<close>

text \<open>
  The step of the job \<open>require-release-label\<close> in \<open>require-release-label.yml\<close>: the
  inputs it passes to the action under \<open>with\<close>.
\<close>

record required_labels =
  with_mode :: string
  with_count :: nat
  with_labels :: string

definition require_release_label :: required_labels where
  "require_release_label =
     \<lparr>with_mode = ''exactly'', with_count = 1,
      with_labels =
        ''release:docs, release:chore, release:fix, release:feature, release:feature-breaking''\<rparr>"

text \<open>
  Modelled from the spec: how the action reads its \<open>labels\<close> input is not in the
  repository. Section 4.1 names the five labels as a set; here the input is a
  comma-separated list whose entries are taken without the blanks around them.
\<close>

definition trim :: "string \<Rightarrow> string" where
  "trim s = rev (dropWhile (\<lambda>c. c = CHR '' '') (rev (dropWhile (\<lambda>c. c = CHR '' '') s)))"

definition allowed_labels :: "required_labels \<Rightarrow> string list" where
  "allowed_labels cfg = map trim (js_split CHR '','' (with_labels cfg))"

text \<open>
  Modelled from the spec: the action \<open>mheap/github-action-required-labels@v3\<close> that the
  step runs is not in the repository. Section 4.1: given the labels attached to a pull
  request, the check succeeds iff exactly one label of the list is present, and fails
  with a non-zero exit otherwise. The labels of a pull request come as a list; the
  result is the exit status, and \<open>None\<close> for a mode the spec does not describe.
\<close>

definition required_labels_action :: "required_labels \<Rightarrow> string list \<Rightarrow> nat option" where
  "required_labels_action cfg L =
     (if with_mode cfg = ''exactly''
      then (if length (filter (\<lambda>l. l \<in> set (allowed_labels cfg)) L) = with_count cfg
            then Some 0 else Some 1)
      else None)"

section \<open>Reading a trace\<close>

text \<open>The effects that classify, present or change a pull request.\<close>

fun touches_pr :: "effect \<Rightarrow> bool" where
  "touches_pr (Report p e ok) = True"
| "touches_pr (OpenPR n) = True"
| "touches_pr (Fixing n e) = True"
| "touches_pr (MilestonePullRequest i v) = True"
| "touches_pr _ = False"

text \<open>
  What an effect of \<open>makeValidateMilestone\<close>, called on \<open>pr\<close> and \<open>expected\<close>, can be.
\<close>

fun about :: "binding \<Rightarrow> milestoned_pr \<Rightarrow> string option \<Rightarrow> effect \<Rightarrow> bool" where
  "about ctx pr expected (Report p e ok) =
     (p = pr \<and> e = expected \<and> ok = (Some (milestone pr) = expected))"
| "about ctx pr expected (OpenPR n) = (n = pr_number pr \<and> Some (milestone pr) \<noteq> expected)"
| "about ctx pr expected (Fixing n e) =
     (n = pr_number pr \<and> e = expected \<and> Some (milestone pr) \<noteq> expected)"
| "about ctx pr expected (MilestonePullRequest i v) =
     (i = pr_id pr \<and> v = js_get (milestoneTitlesToIds ctx) (property_key expected)
      \<and> Some (milestone pr) \<noteq> expected)"
| "about ctx pr expected (Question q) = (q = fix_question)"
| "about ctx pr expected (Log s) = (s = ''done'')"
| "about ctx pr expected _ = False"

text \<open>An answer that ends the loop of \<open>makeValidateMilestone\<close>.\<close>

definition decisive :: "string \<Rightarrow> bool" where
  "decisive answer = (answer \<notin> set [''open'', ''o''])"

text \<open>The binding the handler makes for \<open>makeValidateMilestone\<close>.\<close>

definition bound :: "bool \<Rightarrow> world \<Rightarrow> binding" where
  "bound prompt_flag w =
     \<lparr>prompt = prompt_flag,
      milestoneTitlesToIds = titles_to_ids (validated_nodes (nodes w))\<rparr>"

text \<open>A pull request whose milestone is not the expected one: the loop asks about it.\<close>

definition mismatched :: "releaseLib \<Rightarrow> world \<Rightarrow> milestoned_pr \<Rightarrow> bool" where
  "mismatched lib w pr = (Some (milestone pr) \<noteq> expected_milestone lib w pr)"

text \<open>
  The pull requests of the milestones other than \<open>chore\<close> all have a merge commit.
\<close>

definition all_merged :: "world \<Rightarrow> bool" where
  "all_merged w =
     list_all (\<lambda>m. list_all (\<lambda>pr. mergeCommit pr \<noteq> None) (pullRequests_nodes m))
       (validated_nodes (nodes w))"

text \<open>The number of pull requests the loop asks the operator about.\<close>

definition awaited :: "releaseLib \<Rightarrow> world \<Rightarrow> nat" where
  "awaited lib w =
     (case collect_prs (validated_nodes (nodes w)) of
        None \<Rightarrow> 0
      | Some prs \<Rightarrow> length (filter (mismatched lib w) prs))"

section \<open>Example runs\<close>

text \<open>
  An instance of the helpers of \<open>releaseLib.mjs\<close>, and a repository with three open
  milestones: \<open>v3.5.0\<close>, \<open>chore\<close> (more than one page of pull requests) and
  \<open>next-release\<close>, which holds a pull request of the ignore list.
\<close>

definition example_lib :: releaseLib where
  "example_lib =
     \<lparr>isYes = (\<lambda>answer. answer \<in> set ['''', ''Y'', ''y'']),
      sanitizeMessage = filter (\<lambda>c. c \<noteq> CHR 0x60),
      isCommitInRef = (\<lambda>ref message. ref = ''next'' \<and> message \<in> set [''feat: b (#2)''])\<rparr>"

definition example_chore :: milestone_node where
  "example_chore =
     \<lparr>ms_id = ''MI_2'', ms_title = ''chore'', hasNextPage = True,
      pullRequests_nodes =
        [\<lparr>pr_id = ''PR_3'', pr_number = 3, pr_title = ''c'',
          mergeCommit = Some ''chore: c (#3)''\<rparr>]\<rparr>"

definition example_v350 :: milestone_node where
  "example_v350 =
     \<lparr>ms_id = ''MI_1'', ms_title = ''v3.5.0'', hasNextPage = False,
      pullRequests_nodes =
        [\<lparr>pr_id = ''PR_1'', pr_number = 1, pr_title = ''a'',
          mergeCommit = Some (''fix: a (#1)'' @ [CHR 0x0A] @ ''details'')\<rparr>,
         \<lparr>pr_id = ''PR_2'', pr_number = 2, pr_title = ''b'',
          mergeCommit = Some ([CHR 0x60] @ ''feat: b (#2)'')\<rparr>]\<rparr>"

definition example_next :: milestone_node where
  "example_next =
     \<lparr>ms_id = ''MI_3'', ms_title = ''next-release'', hasNextPage = False,
      pullRequests_nodes =
        [\<lparr>pr_id = ''PR_4'', pr_number = 4, pr_title = ''d'',
          mergeCommit = Some ''feat: d (#4)''\<rparr>,
         \<lparr>pr_id = ''PR_kwDOC2M2f85AxHWK'', pr_number = 6692, pr_title = ''e'',
          mergeCommit = Some ''chore: e (#6692)''\<rparr>]\<rparr>"

definition example_nodes :: "milestone_node list" where
  "example_nodes = [example_v350, example_chore, example_next]"

definition example_world :: world where
  "example_world =
     \<lparr>GITHUB_TOKEN = Some ''token'', totalCount = 0, nodes = example_nodes,
      releaseBranch = ''release/minor/v3.5.0'', releaseCommits = [''fix: a (#1)''],
      answers = [''y'', ''o'', ''y'', ''no'']\<rparr>"

text \<open>The pull requests of the example as the handler passes them on.\<close>

definition example_pr1 :: milestoned_pr where
  "example_pr1 =
     \<lparr>pr_id = ''PR_1'', pr_number = 1, pr_title = ''a'',
      mergeCommit_message = ''fix: a (#1)'', milestone = ''v3.5.0''\<rparr>"

definition example_pr2 :: milestoned_pr where
  "example_pr2 =
     \<lparr>pr_id = ''PR_2'', pr_number = 2, pr_title = ''b'',
      mergeCommit_message = [CHR 0x60] @ ''feat: b (#2)'', milestone = ''v3.5.0''\<rparr>"

definition example_pr4 :: milestoned_pr where
  "example_pr4 =
     \<lparr>pr_id = ''PR_4'', pr_number = 4, pr_title = ''d'',
      mergeCommit_message = ''feat: d (#4)'', milestone = ''next-release''\<rparr>"

text \<open>The same repository with open cherry-pick pull requests.\<close>

definition cherry_world :: world where
  "cherry_world = example_world\<lparr>totalCount := 2\<rparr>"

text \<open>
  A repository whose milestone \<open>v3.6.0\<close> has more than one page of pull requests.
\<close>

definition paged_node :: milestone_node where
  "paged_node =
     \<lparr>ms_id = ''MI_4'', ms_title = ''v3.6.0'', hasNextPage = True,
      pullRequests_nodes =
        [\<lparr>pr_id = ''PR_5'', pr_number = 5, pr_title = ''f'',
          mergeCommit = Some ''feat: f (#5)''\<rparr>]\<rparr>"

definition paged_world :: world where
  "paged_world = example_world\<lparr>nodes := [example_chore, paged_node]\<rparr>"

text \<open>
  A repository whose milestone \<open>v3.6.0\<close> holds a pull request that is still open, with
  no merge commit.
\<close>

definition unmerged_world :: world where
  "unmerged_world =
     \<lparr>GITHUB_TOKEN = Some ''token'', totalCount = 0,
      nodes =
        [\<lparr>ms_id = ''MI_4'', ms_title = ''v3.6.0'', hasNextPage = False,
          pullRequests_nodes =
            [\<lparr>pr_id = ''PR_6'', pr_number = 6, pr_title = ''g'', mergeCommit = None\<rparr>]\<rparr>],
      releaseBranch = ''release/minor/v3.5.0'', releaseCommits = [''fix: a (#1)''],
      answers = [''y'']\<rparr>"

text \<open>The example without the milestone \<open>chore\<close>.\<close>

definition plain_world :: world where
  "plain_world = example_world\<lparr>nodes := [example_v350, example_next]\<rparr>"

text \<open>The example with a release branch whose third component is \<open>constructor\<close>.\<close>

definition constructor_world :: world where
  "constructor_world = example_world\<lparr>releaseBranch := ''release/minor/constructor''\<rparr>"

section \<open>Facts about the primitives\<close>

lemma js_split_nonempty: "js_split sep s \<noteq> []"
  by (induction s) (auto split: list.splits)

lemma js_split_no_sep: "sep \<notin> set s \<Longrightarrow> js_split sep s = [s]"
  by (induction s) auto

lemma js_split_append: "sep \<notin> set a \<Longrightarrow> js_split sep (a @ sep # s) = a # js_split sep s"
  by (induction a) auto

lemma third_component:
  assumes "CHR ''/'' \<notin> set a" and "CHR ''/'' \<notin> set b" and "CHR ''/'' \<notin> set c"
  shows "js_index (js_split CHR ''/'' (a @ ''/'' @ b @ ''/'' @ c)) 2 = Some c"
  using assms by (simp add: js_split_append js_split_no_sep js_index_def)

lemma first_line_takeWhile: "first_line m = takeWhile (\<lambda>c. c \<noteq> CHR 0x0A) m"
proof -
  have "\<exists>ws. js_split sep m = takeWhile (\<lambda>c. c \<noteq> sep) m # ws" for sep
    by (induction m) (auto split: list.splits)
  then obtain ws where "js_split (CHR 0x0A) m = takeWhile (\<lambda>c. c \<noteq> CHR 0x0A) m # ws"
    by blast
  then show ?thesis
    by (simp add: first_line_def)
qed

section \<open>Facts about the loops\<close>

lemma loop_body_about:
  "Some (milestone pr) \<noteq> expected \<Longrightarrow> loop_body lib ctx pr expected a = Continue es \<Longrightarrow> e \<in> set es \<Longrightarrow> about ctx pr expected e"
  "Some (milestone pr) \<noteq> expected \<Longrightarrow> loop_body lib ctx pr expected a = Break es \<Longrightarrow> e \<in> set es \<Longrightarrow> about ctx pr expected e"
  by (auto simp: loop_body_def split: if_splits)

lemma ask_loop_about:
  "Some (milestone pr) \<noteq> expected \<Longrightarrow> e \<in> set (snd (ask_loop lib ctx pr expected inputs)) \<Longrightarrow> about ctx pr expected e"
proof (induction inputs)
  case Nil
  then show ?case by simp
next
  case (Cons a rest)
  show ?case
  proof (cases "loop_body lib ctx pr expected a")
    case (Continue es)
    with Cons show ?thesis
      by (auto split: prod.splits dest: loop_body_about(1))
  next
    case (Break es)
    with Cons show ?thesis
      by (auto dest: loop_body_about(2))
  qed
qed

lemma default_loop_about:
  "Some (milestone pr) \<noteq> expected \<Longrightarrow> e \<in> set (snd (default_loop lib ctx pr expected inputs)) \<Longrightarrow> about ctx pr expected e"
  by (auto simp: default_loop_def split: pass.splits dest: loop_body_about)

lemma fst_makeValidateMilestone:
  "fst (makeValidateMilestone lib ctx pr expected inputs) =
     (if Some (milestone pr) = expected then Some inputs
      else if prompt ctx then fst (ask_loop lib ctx pr expected inputs)
      else Some inputs)"
  by (simp add: makeValidateMilestone_def case_prod_beta default_loop_def loop_body_def)

lemma snd_makeValidateMilestone:
  "snd (makeValidateMilestone lib ctx pr expected inputs) =
     (if Some (milestone pr) = expected then [Report pr expected True, Log ''done'']
      else Report pr expected False #
        (if prompt ctx then snd (ask_loop lib ctx pr expected inputs)
         else snd (default_loop lib ctx pr expected inputs)))"
  by (simp add: makeValidateMilestone_def case_prod_beta)

lemma makeValidateMilestone_about:
  assumes "e \<in> set (snd (makeValidateMilestone lib ctx pr expected inputs))"
  shows "about ctx pr expected e"
  using assms
  by (auto simp: snd_makeValidateMilestone split: if_splits
      dest: ask_loop_about default_loop_about)

lemma fst_for_prs_Cons:
  "fst (for_prs lib ctx w (pr # prs) inputs) =
     (case fst (makeValidateMilestone lib ctx pr (expected_milestone lib w pr) inputs) of
        None \<Rightarrow> Hangs
      | Some rest \<Rightarrow> fst (for_prs lib ctx w prs rest))"
  by (simp add: case_prod_beta split: prod.splits option.splits)

lemma snd_for_prs_Cons:
  "snd (for_prs lib ctx w (pr # prs) inputs) =
     snd (makeValidateMilestone lib ctx pr (expected_milestone lib w pr) inputs) @
     (case fst (makeValidateMilestone lib ctx pr (expected_milestone lib w pr) inputs) of
        None \<Rightarrow> []
      | Some rest \<Rightarrow> snd (for_prs lib ctx w prs rest))"
  by (simp add: case_prod_beta split: prod.splits option.splits)

lemma for_prs_about:
  "e \<in> set (snd (for_prs lib ctx w prs inputs)) \<Longrightarrow>
   \<exists>pr \<in> set prs. about ctx pr (expected_milestone lib w pr) e"
proof (induction prs arbitrary: inputs)
  case Nil
  then show ?case by simp
next
  case (Cons pr prs)
  from Cons.prems
  have "e \<in> set (snd (makeValidateMilestone lib ctx pr (expected_milestone lib w pr) inputs))
      \<or> (\<exists>rest. e \<in> set (snd (for_prs lib ctx w prs rest)))"
    unfolding snd_for_prs_Cons by (auto split: option.splits)
  then show ?case
    using Cons.IH makeValidateMilestone_about by fastforce
qed

lemma ask_loop_returns:
  "filter decisive inputs \<noteq> [] \<Longrightarrow>
   \<exists>rest. fst (ask_loop lib ctx pr expected inputs) = Some rest
     \<and> filter decisive rest = tl (filter decisive inputs)"
proof (induction inputs)
  case Nil
  then show ?case by simp
next
  case (Cons a inputs)
  show ?case
  proof (cases "decisive a")
    case True
    then show ?thesis
      by (simp add: loop_body_def decisive_def)
  next
    case False
    with Cons.prems have "filter decisive inputs \<noteq> []"
      by simp
    from Cons.IH [OF this] False show ?thesis
      by (auto simp: loop_body_def decisive_def case_prod_beta)
  qed
qed

lemma for_prs_outcome: "fst (for_prs lib ctx w prs inputs) \<in> {Returned, Hangs}"
proof (induction prs arbitrary: inputs)
  case Nil
  then show ?case by simp
next
  case (Cons pr prs)
  then show ?case
    unfolding fst_for_prs_Cons by (simp split: option.splits)
qed

lemma for_prs_asking_returns:
  "length (filter (mismatched lib w) prs) \<le> length (filter decisive inputs) \<Longrightarrow>
   fst (for_prs lib ctx w prs inputs) = Returned"
proof (induction prs arbitrary: inputs)
  case Nil
  then show ?case by simp
next
  case (Cons pr prs)
  let ?exp = "expected_milestone lib w pr"
  have m: "(Some (milestone pr) = ?exp) \<longleftrightarrow> \<not> mismatched lib w pr"
    by (simp add: mismatched_def)
  have "\<exists>rest. fst (makeValidateMilestone lib ctx pr ?exp inputs) = Some rest
      \<and> length (filter (mismatched lib w) prs) \<le> length (filter decisive rest)"
  proof (cases "mismatched lib w pr \<and> prompt ctx")
    case False
    with Cons.prems show ?thesis
      by (auto simp: fst_makeValidateMilestone m split: if_splits)
  next
    case True
    with Cons.prems have "filter decisive inputs \<noteq> []"
      by auto
    from ask_loop_returns [OF this, of lib ctx pr ?exp] obtain rest
      where "fst (ask_loop lib ctx pr ?exp inputs) = Some rest"
        and "filter decisive rest = tl (filter decisive inputs)"
      by blast
    with True Cons.prems show ?thesis
      by (auto simp: fst_makeValidateMilestone m)
  qed
  then obtain rest where r: "fst (makeValidateMilestone lib ctx pr ?exp inputs) = Some rest"
    and l: "length (filter (mismatched lib w) prs) \<le> length (filter decisive rest)"
    by blast
  from Cons.IH [OF l] r show ?case
    unfolding fst_for_prs_Cons by simp
qed

lemma for_prs_default_returns:
  "\<not> prompt ctx \<Longrightarrow> fst (for_prs lib ctx w prs inputs) = Returned"
proof (induction prs arbitrary: inputs)
  case Nil
  then show ?case by simp
next
  case (Cons pr prs)
  then show ?case
    unfolding fst_for_prs_Cons by (simp add: fst_makeValidateMilestone)
qed

section \<open>Facts about the handler\<close>

lemma handler_gate:
  "handler lib flag w =
     (if no_token w
      then (Exit 1, [Log ''You have to set the GITHUB_TOKEN env var''])
      else if totalCount w > 0
      then (Exit 1,
            [Graphql GetOpenCherryPickPRsQuery,
             Log ''There are open cherry-pick PRs; get them merged before continuing'',
             OpenCherryPickPRs])
      else if list_ex hasNextPage (validated_nodes (nodes w))
      then (Exit 1,
            [Graphql GetOpenCherryPickPRsQuery, Graphql GetPRs,
             Log ''A milestone has a next page (i.e. a lot of PRs); this script needs to be updated''])
      else if answers w = []
      then (Hangs,
            [Graphql GetOpenCherryPickPRsQuery, Graphql GetPRs, Log review_hint,
             Question (review_question (validated_nodes (nodes w)))])
      else if hd (answers w) = ''n''
      then (Exit 1,
            [Graphql GetOpenCherryPickPRsQuery, Graphql GetPRs, Log review_hint,
             Question (review_question (validated_nodes (nodes w)))])
      else
        (case collect_prs (validated_nodes (nodes w)) of
           None \<Rightarrow>
             (Throws,
              [Graphql GetOpenCherryPickPRsQuery, Graphql GetPRs, Log review_hint,
               Question (review_question (validated_nodes (nodes w))), UpdateRemotes])
         | Some prs \<Rightarrow>
             (fst (for_prs lib (bound flag w) w prs (tl (answers w))),
              [Graphql GetOpenCherryPickPRsQuery, Graphql GetPRs, Log review_hint,
               Question (review_question (validated_nodes (nodes w))), UpdateRemotes,
               GetReleaseBranch]
              @ snd (for_prs lib (bound flag w) w prs (tl (answers w))))))"
  by (simp add: handler_def Let_def bound_def case_prod_beta list_all_iff list_ex_iff
      split: list.splits option.splits)

lemma paged_iff:
  "list_ex hasNextPage (validated_nodes ns) \<longleftrightarrow>
   (\<exists>m \<in> set ns. ms_title m \<noteq> ''chore'' \<and> hasNextPage m)"
  by (auto simp: list_ex_iff validated_nodes_def)

lemma handler_loop:
  assumes "e \<in> set (snd (handler lib flag w))" and "touches_pr e"
  obtains prs where "collect_prs (validated_nodes (nodes w)) = Some prs"
    and "snd (handler lib flag w) =
       [Graphql GetOpenCherryPickPRsQuery, Graphql GetPRs, Log review_hint,
        Question (review_question (validated_nodes (nodes w))), UpdateRemotes,
        GetReleaseBranch]
       @ snd (for_prs lib (bound flag w) w prs (tl (answers w)))"
    and "e \<in> set (snd (for_prs lib (bound flag w) w prs (tl (answers w))))"
  using assms unfolding handler_gate by (auto split: if_splits option.splits)

lemma handler_about:
  assumes "e \<in> set (snd (handler lib flag w))" and "touches_pr e"
  shows "\<exists>prs. collect_prs (validated_nodes (nodes w)) = Some prs
     \<and> (\<exists>pr \<in> set prs. about (bound flag w) pr (expected_milestone lib w pr) e)"
proof -
  from assms obtain prs where "collect_prs (validated_nodes (nodes w)) = Some prs"
    and "e \<in> set (snd (for_prs lib (bound flag w) w prs (tl (answers w))))"
    by (rule handler_loop)
  then show ?thesis
    using for_prs_about by blast
qed

lemma those_Some_iff: "those xs = Some ys \<longleftrightarrow> xs = map Some ys"
proof (induction xs arbitrary: ys)
  case Nil
  then show ?case by auto
next
  case (Cons x xs)
  then show ?case
    by (cases x) (auto split: option.splits)
qed

lemma those_None_iff: "those xs = None \<longleftrightarrow> None \<in> set xs"
proof (induction xs)
  case Nil
  then show ?case by simp
next
  case (Cons x xs)
  then show ?case
    by (cases x) (auto split: option.splits)
qed

lemma in_mapped:
  "x \<in> set (concat (map (\<lambda>m. map (f m) (g m)) ns)) \<longleftrightarrow>
   (\<exists>m \<in> set ns. \<exists>p \<in> set (g m). x = f m p)"
  by (induction ns) auto

lemma with_milestone_Some:
  "with_milestone m p = Some pr \<longleftrightarrow>
   (\<exists>message. mergeCommit p = Some message
      \<and> pr = \<lparr>pr_id = pr_id p, pr_number = pr_number p, pr_title = pr_title p,
               mergeCommit_message = first_line message, milestone = ms_title m\<rparr>)"
  by (auto simp: with_milestone_def split: option.splits)

lemma collect_prs_iff:
  assumes "collect_prs ns = Some prs"
  shows "pr \<in> set prs \<longleftrightarrow>
   pr_id pr \<notin> set IGNORE_LIST \<and>
   (\<exists>m \<in> set ns. \<exists>p \<in> set (pullRequests_nodes m). with_milestone m p = Some pr)"
proof -
  from assms obtain all
    where all: "concat (map (\<lambda>m. map (with_milestone m) (pullRequests_nodes m)) ns)
        = map Some all"
      and prs: "prs = filter (\<lambda>pr. pr_id pr \<notin> set IGNORE_LIST) all"
    by (auto simp: collect_prs_def those_Some_iff)
  have "pr \<in> set all \<longleftrightarrow>
      Some pr \<in> set (concat (map (\<lambda>m. map (with_milestone m) (pullRequests_nodes m)) ns))"
    unfolding all by auto
  also have "\<dots> \<longleftrightarrow> (\<exists>m \<in> set ns. \<exists>p \<in> set (pullRequests_nodes m). with_milestone m p = Some pr)"
    unfolding in_mapped by (metis (no_types))
  finally show ?thesis
    unfolding prs by auto
qed

lemma collect_prs_None_iff:
  "collect_prs ns = None \<longleftrightarrow>
   (\<exists>m \<in> set ns. \<exists>p \<in> set (pullRequests_nodes m). mergeCommit p = None)"
proof -
  have "with_milestone m p = None \<longleftrightarrow> mergeCommit p = None" for m p
    by (simp add: with_milestone_def split: option.splits)
  then have "None \<in> set (concat (map (\<lambda>m. map (with_milestone m) (pullRequests_nodes m)) ns))
      \<longleftrightarrow> (\<exists>m \<in> set ns. \<exists>p \<in> set (pullRequests_nodes m). mergeCommit p = None)"
    unfolding in_mapped by (metis (no_types))
  then show ?thesis
    unfolding collect_prs_def by (simp only: option.map_disc_iff those_None_iff)
qed

lemma all_merged_collects: "all_merged w \<longleftrightarrow> collect_prs (validated_nodes (nodes w)) \<noteq> None"
  unfolding collect_prs_None_iff by (auto simp: all_merged_def list_all_iff)

lemma for_prs_nodes_update:
  "for_prs lib ctx (w\<lparr>nodes := ns\<rparr>) prs inputs = for_prs lib ctx w prs inputs"
proof (induction prs arbitrary: inputs)
  case Nil
  then show ?case by simp
next
  case (Cons pr prs)
  have "expected_milestone lib (w\<lparr>nodes := ns\<rparr>) pr = expected_milestone lib w pr"
    by (simp add: expected_milestone_def isCommitInReleaseBranch_def)
  then show ?case
    by (simp add: Cons.IH split: prod.split option.split)
qed

lemma titles_to_ids_dom_foldl:
  "dom (foldl (\<lambda>obj m. js_set obj (ms_title m) (ms_id m)) acc ns) \<subseteq> dom acc \<union> ms_title ` set ns"
proof (induction ns arbitrary: acc)
  case Nil
  then show ?case by simp
next
  case (Cons m ns)
  have "dom (js_set acc (ms_title m) (ms_id m)) \<subseteq> insert (ms_title m) (dom acc)"
    by (auto simp: js_set_def split: if_splits)
  with Cons.IH [of "js_set acc (ms_title m) (ms_id m)"] show ?case
    by auto
qed

lemma titles_to_ids_dom: "dom (titles_to_ids ns) \<subseteq> ms_title ` set ns"
  using titles_to_ids_dom_foldl [of Map.empty ns] by (simp add: titles_to_ids_def)

lemma titles_to_ids_missing:
  "t \<notin> ms_title ` set ns \<Longrightarrow> t \<notin> set Object_prototype \<Longrightarrow> js_get (titles_to_ids ns) t = Undefined"
  using titles_to_ids_dom [of ns] by (auto simp: js_get_def split: option.splits)



section \<open>The example runs, evaluated\<close>

lemmas run_defs =
  handler_def no_token_def validated_nodes_def collect_prs_def with_milestone_def
  first_line_def titles_to_ids_def
  js_set_def js_get_def property_key_def Object_prototype_def IGNORE_LIST_def
  review_question_def expected_milestone_def isCommitInReleaseBranch_def js_index_def
  makeValidateMilestone_def default_loop_def loop_body_def fix_question_def

lemmas example_defs =
  example_lib_def example_world_def example_nodes_def example_chore_def example_v350_def
  example_next_def plain_world_def
  example_pr1_def example_pr2_def example_pr4_def cherry_world_def paged_node_def
  paged_world_def unmerged_world_def constructor_world_def

lemma example_run:
  "handler example_lib True example_world =
     (Returned,
      [Graphql GetOpenCherryPickPRsQuery, Graphql GetPRs, Log review_hint,
       Question ''Ok to review PRs in milestone v3.5.0, next-release ? [Y/n/] > '',
       UpdateRemotes, GetReleaseBranch,
       Report example_pr1 (Some ''v3.5.0'') True, Log ''done'',
       Report example_pr2 (Some ''next-release'') False,
       Question ''  ok to fix? [Y/n/o(pen)] > '', OpenPR 2,
       Question ''  ok to fix? [Y/n/o(pen)] > '',
       Fixing 2 (Some ''next-release''),
       MilestonePullRequest ''PR_2'' (Str ''MI_3''), Log ''done'',
       Report example_pr4 (Some ''v4.0.0'') False,
       Question ''  ok to fix? [Y/n/o(pen)] > '', Log ''done''])"
  by (simp add: run_defs example_defs)

lemma example_run_default:
  "handler example_lib False example_world =
     (Returned,
      [Graphql GetOpenCherryPickPRsQuery, Graphql GetPRs, Log review_hint,
       Question ''Ok to review PRs in milestone v3.5.0, next-release ? [Y/n/] > '',
       UpdateRemotes, GetReleaseBranch,
       Report example_pr1 (Some ''v3.5.0'') True, Log ''done'',
       Report example_pr2 (Some ''next-release'') False,
       Fixing 2 (Some ''next-release''),
       MilestonePullRequest ''PR_2'' (Str ''MI_3''), Log ''done'',
       Report example_pr4 (Some ''v4.0.0'') False,
       Fixing 4 (Some ''v4.0.0''),
       MilestonePullRequest ''PR_4'' Undefined, Log ''done''])"
  by (simp add: run_defs example_defs)

section \<open>The milestone validator\<close>

subsection \<open>The guards of the handler\<close>

text \<open>
  C8. When the credential is set and the query for open cherry-pick pull requests gives
  a count above zero, the handler logs that they must be merged first, calls
  \<open>openCherryPickPRs\<close> and exits with code 1. Its only query is the one for the count:
  the milestones are not fetched and no pull request is processed.
\<close>

theorem open_cherry_picks_exit:
  assumes "\<not> no_token w" and "totalCount w > 0"
  shows "handler lib flag w =
     (Exit 1,
      [Graphql GetOpenCherryPickPRsQuery,
       Log ''There are open cherry-pick PRs; get them merged before continuing'',
       OpenCherryPickPRs])"
  using assms by (simp add: handler_def)

theorem open_cherry_picks_exit_witness:
  "\<not> no_token cherry_world \<and> totalCount cherry_world > 0 \<and>
   handler example_lib True cherry_world =
     (Exit 1,
      [Graphql GetOpenCherryPickPRsQuery,
       Log ''There are open cherry-pick PRs; get them merged before continuing'',
       OpenCherryPickPRs])"
proof -
  have token: "\<not> no_token cherry_world"
    by (simp add: no_token_def example_defs)
  have count: "totalCount cherry_world > 0"
    by (simp add: example_defs)
  from open_cherry_picks_exit [OF token count, of example_lib True] token count
  show ?thesis
    by simp
qed

text \<open>
  C3, as amended. When an open milestone other than \<open>chore\<close> reports
  \<open>hasNextPage = true\<close>, the handler exits with code 1 and no pull request has been
  classified, presented, opened or changed; when the run gets as far as the milestones
  (credential set, no open cherry-pick pull request) it does the two queries, logs the
  message about the next page and nothing else. The milestone \<open>chore\<close> is filtered out
  before the test, so its pages do not count.
\<close>

theorem pagination_exits_before_prs:
  assumes "m \<in> set (nodes w)" and "ms_title m \<noteq> ''chore''" and "hasNextPage m"
  shows "fst (handler lib flag w) = Exit 1
     \<and> \<not> list_ex touches_pr (snd (handler lib flag w))
     \<and> (\<not> no_token w \<and> totalCount w \<le> 0 \<longrightarrow>
          snd (handler lib flag w) =
            [Graphql GetOpenCherryPickPRsQuery, Graphql GetPRs,
             Log ''A milestone has a next page (i.e. a lot of PRs); this script needs to be updated''])"
proof -
  from assms have "list_ex hasNextPage (validated_nodes (nodes w))"
    unfolding paged_iff by blast
  then show ?thesis
    unfolding handler_gate by simp
qed

theorem pagination_exits_before_prs_witness:
  "paged_node \<in> set (nodes paged_world) \<and> ms_title paged_node \<noteq> ''chore''
   \<and> hasNextPage paged_node \<and> \<not> no_token paged_world \<and> totalCount paged_world \<le> 0
   \<and> handler example_lib True paged_world =
       (Exit 1,
        [Graphql GetOpenCherryPickPRsQuery, Graphql GetPRs,
         Log ''A milestone has a next page (i.e. a lot of PRs); this script needs to be updated''])"
proof -
  have node: "paged_node \<in> set (nodes paged_world)"
    by (simp add: example_defs)
  have title: "ms_title paged_node \<noteq> ''chore''"
    by (simp add: example_defs)
  have page: "hasNextPage paged_node"
    by (simp add: example_defs)
  have fetched: "\<not> no_token paged_world \<and> totalCount paged_world \<le> 0"
    by (simp add: no_token_def example_defs)
  from pagination_exits_before_prs [OF node title page, of example_lib True] fetched
  have "fst (handler example_lib True paged_world) = Exit 1"
    and "snd (handler example_lib True paged_world) =
       [Graphql GetOpenCherryPickPRsQuery, Graphql GetPRs,
        Log ''A milestone has a next page (i.e. a lot of PRs); this script needs to be updated'']"
    by blast+
  then have "handler example_lib True paged_world =
       (Exit 1,
        [Graphql GetOpenCherryPickPRsQuery, Graphql GetPRs,
         Log ''A milestone has a next page (i.e. a lot of PRs); this script needs to be updated''])"
    by (simp add: prod_eq_iff)
  with node title page fetched show ?thesis
    by blast
qed

text \<open>
  C3 as stated fails: in the example the fetched milestone \<open>chore\<close> reports
  \<open>hasNextPage = true\<close>, and the run classifies and reconciles pull requests and ends
  with code 0.
\<close>

theorem chore_pagination_counterexample:
  "example_chore \<in> set (nodes example_world) \<and> hasNextPage example_chore
   \<and> exit_code (fst (handler example_lib True example_world)) = Some 0
   \<and> Report example_pr2 (Some ''next-release'') False
       \<in> set (snd (handler example_lib True example_world))
   \<and> MilestonePullRequest ''PR_2'' (Str ''MI_3'')
       \<in> set (snd (handler example_lib True example_world))"
  unfolding example_run
  by (simp add: exit_code_def example_world_def example_nodes_def example_chore_def)

text \<open>
  C9, as amended. The exit code is 1 whenever the credential is unset or empty, or the
  count of open cherry-pick pull requests is above zero, or a milestone other than
  \<open>chore\<close> reports a next page, or the operator answers exactly \<open>n\<close> to the first
  question. When every pull request of the milestones other than \<open>chore\<close> has a merge
  commit, these are the only runs with exit code 1, and in every other run in which
  the operator answers the first question and, when prompting is on, gives an answer
  other than \<open>open\<close> and \<open>o\<close> for each pull request with a wrong milestone, the
  handler returns and the code is 0. What the run does when a pull request has no
  merge commit is left out.
\<close>

theorem exit_code_cases:
  "(no_token w \<or> totalCount w > 0
      \<or> (\<exists>m \<in> set (nodes w). ms_title m \<noteq> ''chore'' \<and> hasNextPage m)
      \<or> (\<exists>rest. answers w = ''n'' # rest) \<longrightarrow>
      exit_code (fst (handler lib flag w)) = Some 1)
   \<and> (all_merged w \<longrightarrow>
        (exit_code (fst (handler lib flag w)) = Some 1 \<longrightarrow>
           no_token w \<or> totalCount w > 0
           \<or> (\<exists>m \<in> set (nodes w). ms_title m \<noteq> ''chore'' \<and> hasNextPage m)
           \<or> (\<exists>rest. answers w = ''n'' # rest))
        \<and> (exit_code (fst (handler lib flag w)) \<noteq> Some 1 \<longrightarrow>
             answers w \<noteq> [] \<longrightarrow>
             (flag \<longrightarrow> awaited lib w \<le> length (filter decisive (tl (answers w)))) \<longrightarrow>
             exit_code (fst (handler lib flag w)) = Some 0))"
proof -
  let ?fails = "no_token w \<or> totalCount w > 0
      \<or> (\<exists>m \<in> set (nodes w). ms_title m \<noteq> ''chore'' \<and> hasNextPage m)
      \<or> (\<exists>rest. answers w = ''n'' # rest)"
  have decline: "(\<exists>rest. answers w = ''n'' # rest) \<longleftrightarrow> answers w \<noteq> [] \<and> hd (answers w) = ''n''"
    by (cases "answers w") auto
  have guards: "exit_code (fst (handler lib flag w)) = Some 1" if ?fails
    using that unfolding decline paged_iff [symmetric] handler_gate
    by (auto simp: exit_code_def)
  have merged: "(exit_code (fst (handler lib flag w)) = Some 1 \<longrightarrow> ?fails)
        \<and> (exit_code (fst (handler lib flag w)) \<noteq> Some 1 \<longrightarrow>
             answers w \<noteq> [] \<longrightarrow>
             (flag \<longrightarrow> awaited lib w \<le> length (filter decisive (tl (answers w)))) \<longrightarrow>
             exit_code (fst (handler lib flag w)) = Some 0)"
    if "all_merged w"
  proof -
    from that obtain prs where prs: "collect_prs (validated_nodes (nodes w)) = Some prs"
      unfolding all_merged_collects by blast
    let ?loop = "for_prs lib (bound flag w) w prs (tl (answers w))"
    have loop: "fst ?loop = Returned \<or> fst ?loop = Hangs"
      using for_prs_outcome [of lib "bound flag w" w prs] by simp
    have returns: "fst ?loop = Returned"
      if "flag \<longrightarrow> awaited lib w \<le> length (filter decisive (tl (answers w)))"
    proof (cases flag)
      case True
      with that prs show ?thesis
        by (simp add: for_prs_asking_returns awaited_def)
    next
      case False
      then show ?thesis
        by (simp add: for_prs_default_returns bound_def)
    qed
    have one: "exit_code (fst (handler lib flag w)) = Some 1 \<longrightarrow> ?fails"
      unfolding decline paged_iff [symmetric] handler_gate
      using loop by (auto simp: exit_code_def prs)
    have zero: "exit_code (fst (handler lib flag w)) \<noteq> Some 1 \<longrightarrow>
             answers w \<noteq> [] \<longrightarrow>
             (flag \<longrightarrow> awaited lib w \<le> length (filter decisive (tl (answers w)))) \<longrightarrow>
             exit_code (fst (handler lib flag w)) = Some 0"
      using returns unfolding handler_gate
      by (auto simp: exit_code_def prs)
    from one zero show ?thesis
      by blast
  qed
  from guards merged show ?thesis
    by blast
qed

theorem exit_code_cases_witness:
  "all_merged example_world
   \<and> \<not> no_token example_world \<and> \<not> totalCount example_world > 0
   \<and> \<not> list_ex (\<lambda>m. ms_title m \<noteq> ''chore'' \<and> hasNextPage m) (nodes example_world)
   \<and> answers example_world = [''y'', ''o'', ''y'', ''no'']
   \<and> awaited example_lib example_world = 2
   \<and> length (filter decisive (tl (answers example_world))) = 2
   \<and> exit_code (fst (handler example_lib True example_world)) = Some 0
   \<and> totalCount cherry_world > 0
   \<and> exit_code (fst (handler example_lib True cherry_world)) = Some 1"
proof -
  have merged: "all_merged example_world"
    by (simp add: all_merged_def validated_nodes_def example_defs)
  have token: "\<not> no_token example_world"
    by (simp add: no_token_def example_defs)
  have count: "\<not> totalCount example_world > 0"
    by (simp add: example_defs)
  have pages: "\<not> list_ex (\<lambda>m. ms_title m \<noteq> ''chore'' \<and> hasNextPage m) (nodes example_world)"
    by (simp add: example_defs)
  have typed: "answers example_world = [''y'', ''o'', ''y'', ''no'']"
    by (simp add: example_defs)
  have wrong: "awaited example_lib example_world = 2"
    by (simp add: awaited_def mismatched_def run_defs example_defs)
  have given: "length (filter decisive (tl (answers example_world))) = 2"
    by (simp add: decisive_def example_defs)
  have cherry: "totalCount cherry_world > 0"
    by (simp add: example_defs)
  from exit_code_cases [of example_world example_lib True]
    merged token count pages typed wrong given
  have zero: "exit_code (fst (handler example_lib True example_world)) = Some 0"
    by (simp add: list_ex_iff) blast
  from exit_code_cases [of cherry_world example_lib True] cherry
  have one: "exit_code (fst (handler example_lib True cherry_world)) = Some 1"
    by blast
  from merged token count pages typed wrong given zero cherry one show ?thesis
    by blast
qed

text \<open>
  C9 as stated fails, in five ways.
  The pull-request list of the fetched milestone \<open>chore\<close> of the example needs a second
  page, and the run ends with code 0.
  In the example without \<open>chore\<close>, the operator declines with \<open>no\<close> at the first
  question: the run goes on, changes a milestone and ends with code 0.
  With the credential set to the empty string the code is 1.
  With an answer missing for a pull request, the run waits and has no exit code.
  With a pull request that has no merge commit, none of the four cases holds and the
  run ends with code 1, on a \<open>TypeError\<close>.
\<close>

theorem exit_code_counterexample:
  "example_chore \<in> set (nodes example_world) \<and> hasNextPage example_chore
   \<and> exit_code (fst (handler example_lib False example_world)) = Some 0
   \<and> handler example_lib False (plain_world\<lparr>answers := [''no'']\<rparr>) =
       (Returned,
        [Graphql GetOpenCherryPickPRsQuery, Graphql GetPRs, Log review_hint,
         Question ''Ok to review PRs in milestone v3.5.0, next-release ? [Y/n/] > '',
         UpdateRemotes, GetReleaseBranch,
         Report example_pr1 (Some ''v3.5.0'') True, Log ''done'',
         Report example_pr2 (Some ''next-release'') False,
         Fixing 2 (Some ''next-release''),
         MilestonePullRequest ''PR_2'' (Str ''MI_3''), Log ''done'',
         Report example_pr4 (Some ''v4.0.0'') False,
         Fixing 4 (Some ''v4.0.0''),
         MilestonePullRequest ''PR_4'' Undefined, Log ''done''])
   \<and> exit_code (fst (handler example_lib False (plain_world\<lparr>answers := [''no'']\<rparr>))) = Some 0
   \<and> exit_code (fst (handler example_lib True (plain_world\<lparr>GITHUB_TOKEN := Some []\<rparr>)))
       = Some 1
   \<and> exit_code (fst (handler example_lib True (plain_world\<lparr>answers := [''y'', ''o'']\<rparr>)))
       = None
   \<and> \<not> no_token unmerged_world \<and> \<not> totalCount unmerged_world > 0
   \<and> \<not> list_ex hasNextPage (nodes unmerged_world)
   \<and> answers unmerged_world = [''y'']
   \<and> handler example_lib True unmerged_world =
       (Throws,
        [Graphql GetOpenCherryPickPRsQuery, Graphql GetPRs, Log review_hint,
         Question ''Ok to review PRs in milestone v3.6.0 ? [Y/n/] > '', UpdateRemotes])
   \<and> exit_code (fst (handler example_lib True unmerged_world)) = Some 1"
  unfolding example_run_default
  by (simp add: exit_code_def run_defs example_defs)

subsection \<open>Which pull requests are validated\<close>

text \<open>
  C6. The milestone titled \<open>chore\<close> takes no part in the validation: the run on the
  fetched milestones is the run on the fetched milestones without \<open>chore\<close>; every pull
  request that is presented carries a milestone other than \<open>chore\<close> and comes from a
  fetched milestone with another title, and so does every pull request named in a
  mutation.
\<close>

theorem chore_never_validated:
  "handler lib flag w =
     handler lib flag (w\<lparr>nodes := filter (\<lambda>m. ms_title m \<noteq> ''chore'') (nodes w)\<rparr>)
   \<and> (\<forall>pr expected ok. Report pr expected ok \<in> set (snd (handler lib flag w)) \<longrightarrow>
        milestone pr \<noteq> ''chore''
        \<and> (\<exists>m \<in> set (nodes w). ms_title m \<noteq> ''chore''
              \<and> milestone pr = ms_title m \<and> pr_id pr \<in> pr_id ` set (pullRequests_nodes m)))
   \<and> (\<forall>pid mid. MilestonePullRequest pid mid \<in> set (snd (handler lib flag w)) \<longrightarrow>
        (\<exists>m \<in> set (nodes w). ms_title m \<noteq> ''chore''
              \<and> pid \<in> pr_id ` set (pullRequests_nodes m)))"
proof -
  let ?w = "w\<lparr>nodes := filter (\<lambda>m. ms_title m \<noteq> ''chore'') (nodes w)\<rparr>"
  have same: "validated_nodes (filter (\<lambda>m. ms_title m \<noteq> ''chore'') (nodes w))
      = validated_nodes (nodes w)"
    by (simp add: validated_nodes_def)
  have "handler lib flag ?w = handler lib flag w"
    unfolding handler_gate
    by (simp add: bound_def same no_token_def for_prs_nodes_update split: option.split)
  moreover
  have origin: "\<exists>m \<in> set (nodes w). ms_title m \<noteq> ''chore'' \<and> milestone pr = ms_title m
      \<and> pr_id pr \<in> pr_id ` set (pullRequests_nodes m)"
    if collected: "collect_prs (validated_nodes (nodes w)) = Some prs"
      and member: "pr \<in> set prs" for prs pr
  proof -
    from member obtain m p where "m \<in> set (nodes w)" and "ms_title m \<noteq> ''chore''"
      and "p \<in> set (pullRequests_nodes m)" and "with_milestone m p = Some pr"
      unfolding collect_prs_iff [OF collected] by (auto simp: validated_nodes_def)
    then show ?thesis
      unfolding with_milestone_Some by force
  qed
  have "milestone pr \<noteq> ''chore''
        \<and> (\<exists>m \<in> set (nodes w). ms_title m \<noteq> ''chore''
              \<and> milestone pr = ms_title m \<and> pr_id pr \<in> pr_id ` set (pullRequests_nodes m))"
    if "Report pr expected ok \<in> set (snd (handler lib flag w))" for pr expected ok
  proof -
    from handler_about [OF that] obtain prs
      where "collect_prs (validated_nodes (nodes w)) = Some prs" and "pr \<in> set prs"
      by auto
    from origin [OF this] show ?thesis
      by auto
  qed
  moreover
  have "\<exists>m \<in> set (nodes w). ms_title m \<noteq> ''chore'' \<and> pid \<in> pr_id ` set (pullRequests_nodes m)"
    if "MilestonePullRequest pid mid \<in> set (snd (handler lib flag w))" for pid mid
  proof -
    from handler_about [OF that] obtain prs pr
      where "collect_prs (validated_nodes (nodes w)) = Some prs" and "pr \<in> set prs"
        and "pid = pr_id pr"
      by auto
    with origin [of prs pr] show ?thesis
      by auto
  qed
  ultimately show ?thesis
    by auto
qed

theorem chore_never_validated_witness:
  "example_chore \<in> set (nodes example_world) \<and> ms_title example_chore = ''chore''
   \<and> handler example_lib True example_world =
       handler example_lib True
         (example_world\<lparr>nodes := filter (\<lambda>m. ms_title m \<noteq> ''chore'') (nodes example_world)\<rparr>)
   \<and> Report example_pr2 (Some ''next-release'') False
        \<in> set (snd (handler example_lib True example_world))
   \<and> milestone example_pr2 \<noteq> ''chore''"
proof -
  have chore: "example_chore \<in> set (nodes example_world) \<and> ms_title example_chore = ''chore''"
    by (simp add: example_defs)
  have shown: "Report example_pr2 (Some ''next-release'') False
        \<in> set (snd (handler example_lib True example_world))"
    unfolding example_run by simp
  from chore_never_validated [of example_lib True example_world] shown chore show ?thesis
    by blast
qed

text \<open>
  C7. A pull request whose identifier is in \<open>IGNORE_LIST\<close> is not presented and not
  named in a mutation, whatever its milestone; and a pull request that is opened in
  the browser or announced as being fixed has the number of a fetched pull request
  that is not in the list.
\<close>

theorem ignored_prs_never_presented:
  "(\<forall>pr expected ok. Report pr expected ok \<in> set (snd (handler lib flag w)) \<longrightarrow>
      pr_id pr \<notin> set IGNORE_LIST)
   \<and> (\<forall>pid mid. MilestonePullRequest pid mid \<in> set (snd (handler lib flag w)) \<longrightarrow>
      pid \<notin> set IGNORE_LIST)
   \<and> (\<forall>n expected. OpenPR n \<in> set (snd (handler lib flag w))
          \<or> Fixing n expected \<in> set (snd (handler lib flag w)) \<longrightarrow>
      (\<exists>m \<in> set (nodes w). \<exists>p \<in> set (pullRequests_nodes m).
          pr_number p = n \<and> pr_id p \<notin> set IGNORE_LIST))"
proof -
  have kept: "\<exists>prs. collect_prs (validated_nodes (nodes w)) = Some prs
      \<and> (\<exists>pr \<in> set prs. about (bound flag w) pr (expected_milestone lib w pr) e)"
    if "e \<in> set (snd (handler lib flag w))" and "touches_pr e" for e
    using that by (rule handler_about)
  have origin: "pr_id pr \<notin> set IGNORE_LIST
      \<and> (\<exists>m \<in> set (nodes w). \<exists>p \<in> set (pullRequests_nodes m).
            pr_number p = pr_number pr \<and> pr_id p = pr_id pr)"
    if collected: "collect_prs (validated_nodes (nodes w)) = Some prs"
      and member: "pr \<in> set prs" for prs pr
  proof -
    from member obtain m p where "pr_id pr \<notin> set IGNORE_LIST" and "m \<in> set (nodes w)"
      and "p \<in> set (pullRequests_nodes m)" and "with_milestone m p = Some pr"
      unfolding collect_prs_iff [OF collected] by (auto simp: validated_nodes_def)
    then show ?thesis
      unfolding with_milestone_Some by force
  qed
  have "pr_id pr \<notin> set IGNORE_LIST"
    if "Report pr expected ok \<in> set (snd (handler lib flag w))" for pr expected ok
    using kept [OF that] origin by auto
  moreover
  have "pid \<notin> set IGNORE_LIST"
    if "MilestonePullRequest pid mid \<in> set (snd (handler lib flag w))" for pid mid
    using kept [OF that] origin by auto
  moreover
  have "\<exists>m \<in> set (nodes w). \<exists>p \<in> set (pullRequests_nodes m).
          pr_number p = n \<and> pr_id p \<notin> set IGNORE_LIST"
    if "OpenPR n \<in> set (snd (handler lib flag w))
          \<or> Fixing n expected \<in> set (snd (handler lib flag w))" for n expected
  proof -
    from that kept [of "OpenPR n"] kept [of "Fixing n expected"]
    obtain prs pr where "collect_prs (validated_nodes (nodes w)) = Some prs"
      and "pr \<in> set prs" and "pr_number pr = n"
      by auto
    with origin [of prs pr] show ?thesis
      by metis
  qed
  ultimately show ?thesis
    by blast
qed

theorem ignored_prs_never_presented_witness:
  "Report example_pr4 (Some ''v4.0.0'') False
        \<in> set (snd (handler example_lib True example_world))
   \<and> pr_id example_pr4 \<notin> set IGNORE_LIST
   \<and> MilestonePullRequest ''PR_2'' (Str ''MI_3'')
        \<in> set (snd (handler example_lib True example_world))
   \<and> ''PR_2'' \<notin> set IGNORE_LIST
   \<and> ''PR_kwDOC2M2f85AxHWK'' \<in> set IGNORE_LIST"
proof -
  have shown: "Report example_pr4 (Some ''v4.0.0'') False
        \<in> set (snd (handler example_lib True example_world))"
    unfolding example_run by simp
  have changed: "MilestonePullRequest ''PR_2'' (Str ''MI_3'')
        \<in> set (snd (handler example_lib True example_world))"
    unfolding example_run by simp
  have listed: "''PR_kwDOC2M2f85AxHWK'' \<in> set IGNORE_LIST"
    by (simp add: IGNORE_LIST_def)
  from ignored_prs_never_presented [of example_lib True example_world] shown changed
  have "pr_id example_pr4 \<notin> set IGNORE_LIST" and "''PR_2'' \<notin> set IGNORE_LIST"
    by blast+
  with shown changed listed show ?thesis
    by blast
qed

subsection \<open>The expected milestone\<close>

text \<open>
  C1. For every pull request the run presents, the expected milestone is found by
  three tests in order. If the first line of its merge-commit message, as it is, equals
  the message of a commit of the release branch, the expected milestone is the third
  \<open>/\<close>-separated component of the release branch's name. Otherwise, if
  \<open>isCommitInRef('next', ...)\<close> holds of the sanitized message, it is
  \<open>next-release\<close>. Otherwise it is \<open>v4.0.0\<close>. The message tested is the first line of
  the merge-commit message of a fetched pull request.
\<close>

theorem expected_milestone_by_tiers:
  assumes "Report pr expected ok \<in> set (snd (handler lib flag w))"
  shows "expected =
       (if mergeCommit_message pr \<in> set (releaseCommits w)
        then js_index (js_split CHR ''/'' (releaseBranch w)) 2
        else if isCommitInRef lib ''next'' (sanitizeMessage lib (mergeCommit_message pr))
        then Some ''next-release''
        else Some ''v4.0.0'')
     \<and> (\<exists>m \<in> set (nodes w). \<exists>p \<in> set (pullRequests_nodes m).
          pr_id pr = pr_id p \<and> milestone pr = ms_title m
          \<and> (\<exists>message. mergeCommit p = Some message
                \<and> mergeCommit_message pr = takeWhile (\<lambda>c. c \<noteq> CHR 0x0A) message))"
proof -
  from handler_about [OF assms] obtain prs
    where prs: "collect_prs (validated_nodes (nodes w)) = Some prs"
      and pr: "pr \<in> set prs"
      and expected: "expected = expected_milestone lib w pr"
    by auto
  from pr obtain m p where "m \<in> set (nodes w)" and "p \<in> set (pullRequests_nodes m)"
    and "with_milestone m p = Some pr"
    unfolding collect_prs_iff [OF prs] by (auto simp: validated_nodes_def)
  then have "\<exists>m \<in> set (nodes w). \<exists>p \<in> set (pullRequests_nodes m).
          pr_id pr = pr_id p \<and> milestone pr = ms_title m
          \<and> (\<exists>message. mergeCommit p = Some message
                \<and> mergeCommit_message pr = takeWhile (\<lambda>c. c \<noteq> CHR 0x0A) message)"
    unfolding with_milestone_Some first_line_takeWhile by force
  with expected show ?thesis
    by (simp add: expected_milestone_def isCommitInReleaseBranch_def list_ex_iff)
qed

theorem expected_milestone_by_tiers_witness:
  "Report example_pr1 (Some ''v3.5.0'') True \<in> set (snd (handler example_lib True example_world))
   \<and> mergeCommit_message example_pr1 \<in> set (releaseCommits example_world)
   \<and> js_index (js_split CHR ''/'' (releaseBranch example_world)) 2 = Some ''v3.5.0''
   \<and> Report example_pr2 (Some ''next-release'') False
        \<in> set (snd (handler example_lib True example_world))
   \<and> mergeCommit_message example_pr2 \<notin> set (releaseCommits example_world)
   \<and> isCommitInRef example_lib ''next''
        (sanitizeMessage example_lib (mergeCommit_message example_pr2))
   \<and> Report example_pr4 (Some ''v4.0.0'') False
        \<in> set (snd (handler example_lib True example_world))
   \<and> mergeCommit_message example_pr4 \<notin> set (releaseCommits example_world)
   \<and> \<not> isCommitInRef example_lib ''next''
        (sanitizeMessage example_lib (mergeCommit_message example_pr4))"
proof -
  have first: "Report example_pr1 (Some ''v3.5.0'') True
        \<in> set (snd (handler example_lib True example_world))"
    unfolding example_run by simp
  have second: "Report example_pr2 (Some ''next-release'') False
        \<in> set (snd (handler example_lib True example_world))"
    unfolding example_run by simp
  have third: "Report example_pr4 (Some ''v4.0.0'') False
        \<in> set (snd (handler example_lib True example_world))"
    unfolding example_run by simp
  have tests: "mergeCommit_message example_pr1 \<in> set (releaseCommits example_world)
      \<and> mergeCommit_message example_pr2 \<notin> set (releaseCommits example_world)
      \<and> isCommitInRef example_lib ''next''
          (sanitizeMessage example_lib (mergeCommit_message example_pr2))
      \<and> mergeCommit_message example_pr4 \<notin> set (releaseCommits example_world)
      \<and> \<not> isCommitInRef example_lib ''next''
          (sanitizeMessage example_lib (mergeCommit_message example_pr4))"
    by (simp add: example_defs)
  from expected_milestone_by_tiers [OF first] tests
  have "js_index (js_split CHR ''/'' (releaseBranch example_world)) 2 = Some ''v3.5.0''"
    by simp
  with first second third tests show ?thesis
    by blast
qed

subsection \<open>Reconciling one pull request\<close>



text \<open>
  C4. For a pull request whose milestone differs from the expected one, after the
  status \<open>error\<close> is printed:
  with prompting on, the answer \<open>open\<close> or \<open>o\<close> opens the pull request in the browser
  and the loop goes on with the answers that follow, as it would without that answer;
  an answer that \<open>isYes\<close> accepts issues the mutation with the identifier of the pull
  request and the value of \<open>milestoneTitlesToIds\<close> at the expected milestone, prints
  \<open>done\<close> and ends the loop; any other answer prints \<open>done\<close> and ends the loop with no
  mutation. With prompting off, no answer is read and, \<open>isYes\<close> accepting the default
  \<open>y\<close>, the same mutation is issued.
\<close>

theorem reconciliation_loop_responses:
  assumes "Some (milestone pr) \<noteq> expected"
  shows
    "(prompt ctx \<and> answer \<in> set [''open'', ''o''] \<longrightarrow>
        (\<exists>r es. makeValidateMilestone lib ctx pr expected rest =
                   (r, Report pr expected False # es)
           \<and> makeValidateMilestone lib ctx pr expected (answer # rest) =
                   (r, Report pr expected False # Question fix_question
                       # OpenPR (pr_number pr) # es)))
     \<and> (prompt ctx \<and> answer \<notin> set [''open'', ''o''] \<and> isYes lib answer \<longrightarrow>
          makeValidateMilestone lib ctx pr expected (answer # rest) =
            (Some rest,
             [Report pr expected False, Question fix_question,
              Fixing (pr_number pr) expected,
              MilestonePullRequest (pr_id pr)
                (js_get (milestoneTitlesToIds ctx) (property_key expected)),
              Log ''done'']))
     \<and> (prompt ctx \<and> answer \<notin> set [''open'', ''o''] \<and> \<not> isYes lib answer \<longrightarrow>
          makeValidateMilestone lib ctx pr expected (answer # rest) =
            (Some rest, [Report pr expected False, Question fix_question, Log ''done'']))
     \<and> (\<not> prompt ctx \<and> isYes lib ''y'' \<longrightarrow>
          makeValidateMilestone lib ctx pr expected inputs =
            (Some inputs,
             [Report pr expected False, Fixing (pr_number pr) expected,
              MilestonePullRequest (pr_id pr)
                (js_get (milestoneTitlesToIds ctx) (property_key expected)),
              Log ''done'']))"
proof -
  have again: "\<exists>r es. makeValidateMilestone lib ctx pr expected rest =
                   (r, Report pr expected False # es)
           \<and> makeValidateMilestone lib ctx pr expected (answer # rest) =
                   (r, Report pr expected False # Question fix_question
                       # OpenPR (pr_number pr) # es)"
    if "prompt ctx" and "answer \<in> set [''open'', ''o'']"
  proof -
    obtain r es where loop: "ask_loop lib ctx pr expected rest = (r, es)"
      by (cases "ask_loop lib ctx pr expected rest")
    from that have "loop_body lib ctx pr expected answer = Continue [OpenPR (pr_number pr)]"
      by (simp add: loop_body_def)
    with loop assms that(1) show ?thesis
      by (simp add: makeValidateMilestone_def)
  qed
  have accepted: "makeValidateMilestone lib ctx pr expected (answer # rest) =
            (Some rest,
             [Report pr expected False, Question fix_question,
              Fixing (pr_number pr) expected,
              MilestonePullRequest (pr_id pr)
                (js_get (milestoneTitlesToIds ctx) (property_key expected)),
              Log ''done''])"
    if "prompt ctx" and "answer \<notin> set [''open'', ''o'']" and "isYes lib answer"
    using that assms by (simp add: makeValidateMilestone_def loop_body_def)
  have declined: "makeValidateMilestone lib ctx pr expected (answer # rest) =
            (Some rest, [Report pr expected False, Question fix_question, Log ''done''])"
    if "prompt ctx" and "answer \<notin> set [''open'', ''o'']" and "\<not> isYes lib answer"
    using that assms by (simp add: makeValidateMilestone_def loop_body_def)
  have unasked: "makeValidateMilestone lib ctx pr expected inputs =
            (Some inputs,
             [Report pr expected False, Fixing (pr_number pr) expected,
              MilestonePullRequest (pr_id pr)
                (js_get (milestoneTitlesToIds ctx) (property_key expected)),
              Log ''done''])"
    if "\<not> prompt ctx" and "isYes lib ''y''"
    using that assms by (simp add: makeValidateMilestone_def default_loop_def loop_body_def)
  from again accepted declined unasked show ?thesis
    by blast
qed

theorem reconciliation_loop_responses_witness:
  "Some (milestone example_pr2) \<noteq> Some ''next-release''
   \<and> prompt (bound True example_world) \<and> \<not> prompt (bound False example_world)
   \<and> isYes example_lib ''y'' \<and> \<not> isYes example_lib ''no''
   \<and> makeValidateMilestone example_lib (bound True example_world) example_pr2
        (Some ''next-release'') [''y''] =
        (Some [],
         [Report example_pr2 (Some ''next-release'') False, Question fix_question,
          Fixing 2 (Some ''next-release''), MilestonePullRequest ''PR_2'' (Str ''MI_3''),
          Log ''done''])
   \<and> makeValidateMilestone example_lib (bound True example_world) example_pr2
        (Some ''next-release'') [''o'', ''y''] =
        (Some [],
         [Report example_pr2 (Some ''next-release'') False, Question fix_question, OpenPR 2,
          Question fix_question,
          Fixing 2 (Some ''next-release''), MilestonePullRequest ''PR_2'' (Str ''MI_3''),
          Log ''done''])
   \<and> makeValidateMilestone example_lib (bound True example_world) example_pr2
        (Some ''next-release'') [''no'', ''y''] =
        (Some [''y''],
         [Report example_pr2 (Some ''next-release'') False, Question fix_question,
          Log ''done''])
   \<and> makeValidateMilestone example_lib (bound False example_world) example_pr2
        (Some ''next-release'') [''no'', ''y''] =
        (Some [''no'', ''y''],
         [Report example_pr2 (Some ''next-release'') False,
          Fixing 2 (Some ''next-release''), MilestonePullRequest ''PR_2'' (Str ''MI_3''),
          Log ''done''])"
proof -
  let ?asking = "bound True example_world" and ?silent = "bound False example_world"
  let ?exp = "Some ''next-release''"
  have wrong: "Some (milestone example_pr2) \<noteq> ?exp"
    by (simp add: example_defs)
  have flags: "prompt ?asking \<and> \<not> prompt ?silent"
    by (simp add: bound_def)
  have yes: "isYes example_lib ''y'' \<and> \<not> isYes example_lib ''no''"
    by (simp add: example_defs)
  have fields: "pr_number example_pr2 = 2 \<and> pr_id example_pr2 = ''PR_2''"
    by (simp add: example_defs)
  have id: "js_get (milestoneTitlesToIds ?asking) (property_key ?exp) = Str ''MI_3''"
    "js_get (milestoneTitlesToIds ?silent) (property_key ?exp) = Str ''MI_3''"
    by (simp_all add: bound_def run_defs example_defs)
  from reconciliation_loop_responses [OF wrong, of ?asking "''y''" example_lib "[]"]
    flags yes fields id
  have accepted: "makeValidateMilestone example_lib ?asking example_pr2 ?exp [''y''] =
        (Some [],
         [Report example_pr2 ?exp False, Question fix_question,
          Fixing 2 ?exp, MilestonePullRequest ''PR_2'' (Str ''MI_3''), Log ''done''])"
    by simp
  from reconciliation_loop_responses [OF wrong, of ?asking "''o''" example_lib "[''y'']"]
    flags accepted fields
  have opened: "makeValidateMilestone example_lib ?asking example_pr2 ?exp [''o'', ''y''] =
        (Some [],
         [Report example_pr2 ?exp False, Question fix_question, OpenPR 2,
          Question fix_question,
          Fixing 2 ?exp, MilestonePullRequest ''PR_2'' (Str ''MI_3''), Log ''done''])"
    by simp
  from reconciliation_loop_responses [OF wrong, of ?asking "''no''" example_lib "[''y'']"]
    flags yes
  have declined: "makeValidateMilestone example_lib ?asking example_pr2 ?exp [''no'', ''y''] =
        (Some [''y''], [Report example_pr2 ?exp False, Question fix_question, Log ''done''])"
    by simp
  from reconciliation_loop_responses
    [OF wrong, of ?silent _ example_lib _ "[''no'', ''y'']"] flags yes fields id
  have unasked: "makeValidateMilestone example_lib ?silent example_pr2 ?exp [''no'', ''y''] =
        (Some [''no'', ''y''],
         [Report example_pr2 ?exp False,
          Fixing 2 ?exp, MilestonePullRequest ''PR_2'' (Str ''MI_3''), Log ''done''])"
    by simp
  from wrong flags yes accepted opened declined unasked show ?thesis
    by blast
qed

text \<open>
  C10, as amended. The object \<open>milestoneTitlesToIds\<close> has own properties only at titles of fetched
  milestones other than \<open>chore\<close>. So when no fetched milestone other than \<open>chore\<close>
  bears the expected milestone as its title (and that title is not the name of a member
  of \<open>Object.prototype\<close>), fixing a pull request with a wrong milestone issues the
  mutation with \<open>milestoneId\<close> undefined: the run neither fails nor skips the pull
  request. This holds for an accepted answer with prompting on and for the default
  with prompting off.
\<close>

theorem missing_title_undefined_milestoneId:
  "dom (milestoneTitlesToIds (bound flag w))
      \<subseteq> {t. t \<noteq> ''chore'' \<and> (\<exists>m \<in> set (nodes w). ms_title m = t)}
   \<and> (Some (milestone pr) \<noteq> expected
        \<and> (\<forall>m \<in> set (nodes w). ms_title m = ''chore'' \<or> ms_title m \<noteq> property_key expected)
        \<and> property_key expected \<notin> set Object_prototype \<longrightarrow>
        (answer \<notin> set [''open'', ''o''] \<and> isYes lib answer \<longrightarrow>
           makeValidateMilestone lib (bound True w) pr expected (answer # rest) =
             (Some rest,
              [Report pr expected False, Question fix_question,
               Fixing (pr_number pr) expected,
               MilestonePullRequest (pr_id pr) Undefined, Log ''done'']))
        \<and> (isYes lib ''y'' \<longrightarrow>
           makeValidateMilestone lib (bound False w) pr expected inputs =
             (Some inputs,
              [Report pr expected False, Fixing (pr_number pr) expected,
               MilestonePullRequest (pr_id pr) Undefined, Log ''done''])))"
proof -
  have keys: "dom (milestoneTitlesToIds (bound flag w))
      \<subseteq> {t. t \<noteq> ''chore'' \<and> (\<exists>m \<in> set (nodes w). ms_title m = t)}"
    using titles_to_ids_dom [of "validated_nodes (nodes w)"]
    by (auto simp: bound_def validated_nodes_def)
  have issued: "(answer \<notin> set [''open'', ''o''] \<and> isYes lib answer \<longrightarrow>
           makeValidateMilestone lib (bound True w) pr expected (answer # rest) =
             (Some rest,
              [Report pr expected False, Question fix_question,
               Fixing (pr_number pr) expected,
               MilestonePullRequest (pr_id pr) Undefined, Log ''done'']))
        \<and> (isYes lib ''y'' \<longrightarrow>
           makeValidateMilestone lib (bound False w) pr expected inputs =
             (Some inputs,
              [Report pr expected False, Fixing (pr_number pr) expected,
               MilestonePullRequest (pr_id pr) Undefined, Log ''done'']))"
    if wrong: "Some (milestone pr) \<noteq> expected"
      and absent: "\<forall>m \<in> set (nodes w). ms_title m = ''chore'' \<or> ms_title m \<noteq> property_key expected"
      and plain: "property_key expected \<notin> set Object_prototype"
  proof -
    from absent have "property_key expected \<notin> ms_title ` set (validated_nodes (nodes w))"
      by (auto simp: validated_nodes_def)
    from titles_to_ids_missing [OF this plain]
    have "js_get (milestoneTitlesToIds (bound b w)) (property_key expected) = Undefined" for b
      by (simp add: bound_def)
    with wrong show ?thesis
      by (simp add: makeValidateMilestone_def default_loop_def loop_body_def bound_def)
  qed
  from keys issued show ?thesis
    by blast
qed

theorem missing_title_undefined_milestoneId_witness:
  "Some (milestone example_pr4) \<noteq> Some ''v4.0.0''
   \<and> ''v4.0.0'' \<notin> ms_title ` set (nodes example_world)
   \<and> ''v4.0.0'' \<notin> set Object_prototype
   \<and> isYes example_lib ''y''
   \<and> makeValidateMilestone example_lib (bound True example_world) example_pr4
        (Some ''v4.0.0'') [''y''] =
        (Some [],
         [Report example_pr4 (Some ''v4.0.0'') False, Question fix_question,
          Fixing 4 (Some ''v4.0.0''), MilestonePullRequest ''PR_4'' Undefined, Log ''done''])
   \<and> makeValidateMilestone example_lib (bound False example_world) example_pr4
        (Some ''v4.0.0'') [] =
        (Some [],
         [Report example_pr4 (Some ''v4.0.0'') False,
          Fixing 4 (Some ''v4.0.0''), MilestonePullRequest ''PR_4'' Undefined, Log ''done''])"
proof -
  have wrong: "Some (milestone example_pr4) \<noteq> Some ''v4.0.0''"
    by (simp add: example_defs)
  have absent: "''v4.0.0'' \<notin> ms_title ` set (nodes example_world)"
    by (simp add: example_defs)
  have plain: "''v4.0.0'' \<notin> set Object_prototype"
    by (simp add: Object_prototype_def)
  have yes: "isYes example_lib ''y''"
    by (simp add: example_defs)
  have fields: "pr_number example_pr4 = 4 \<and> pr_id example_pr4 = ''PR_4''"
    by (simp add: example_defs)
  from absent have none: "\<forall>m \<in> set (nodes example_world).
      ms_title m = ''chore'' \<or> ms_title m \<noteq> property_key (Some ''v4.0.0'')"
    by (auto simp: property_key_def image_iff)
  from missing_title_undefined_milestoneId
    [of True example_world example_pr4 "Some ''v4.0.0''" "''y''" example_lib "[]" "[]"]
    wrong none plain yes fields
  have "makeValidateMilestone example_lib (bound True example_world) example_pr4
        (Some ''v4.0.0'') [''y''] =
        (Some [],
         [Report example_pr4 (Some ''v4.0.0'') False, Question fix_question,
          Fixing 4 (Some ''v4.0.0''), MilestonePullRequest ''PR_4'' Undefined, Log ''done''])"
    and "makeValidateMilestone example_lib (bound False example_world) example_pr4
        (Some ''v4.0.0'') [] =
        (Some [],
         [Report example_pr4 (Some ''v4.0.0'') False,
          Fixing 4 (Some ''v4.0.0''), MilestonePullRequest ''PR_4'' Undefined, Log ''done''])"
    by (simp_all add: property_key_def)
  with wrong absent plain yes show ?thesis
    by blast
qed

text \<open>
  C10 as stated fails: with the release branch \<open>release/minor/constructor\<close> the
  expected milestone of the first pull request of the example is \<open>constructor\<close>. No
  fetched milestone bears that title, and the mutation carries the member
  \<open>constructor\<close> that the object inherits from \<open>Object.prototype\<close>, not
  \<open>undefined\<close>.
\<close>

theorem missing_title_counterexample:
  "''constructor'' \<notin> ms_title ` set (nodes constructor_world)
   \<and> handler example_lib False constructor_world =
       (Returned,
        [Graphql GetOpenCherryPickPRsQuery, Graphql GetPRs, Log review_hint,
         Question ''Ok to review PRs in milestone v3.5.0, next-release ? [Y/n/] > '',
         UpdateRemotes, GetReleaseBranch,
         Report example_pr1 (Some ''constructor'') False,
         Fixing 1 (Some ''constructor''),
         MilestonePullRequest ''PR_1'' (Inherited ''constructor''), Log ''done'',
         Report example_pr2 (Some ''next-release'') False,
         Fixing 2 (Some ''next-release''),
         MilestonePullRequest ''PR_2'' (Str ''MI_3''), Log ''done'',
         Report example_pr4 (Some ''v4.0.0'') False,
         Fixing 4 (Some ''v4.0.0''),
         MilestonePullRequest ''PR_4'' Undefined, Log ''done''])
   \<and> Inherited ''constructor'' \<noteq> Undefined"
  by (simp add: run_defs example_defs)

section \<open>The label gate of the workflow\<close>

lemma allowed_release_labels:
  "allowed_labels require_release_label =
     [''release:docs'', ''release:chore'', ''release:fix'', ''release:feature'',
      ''release:feature-breaking'']"
  by (simp add: allowed_labels_def require_release_label_def trim_def)

lemma count_in_distinct:
  assumes "distinct L"
  shows "length (filter (\<lambda>l. l \<in> A) L) = card (set L \<inter> A)"
proof -
  from assms have "distinct (filter (\<lambda>l. l \<in> A) L)"
    by simp
  then have "card (set (filter (\<lambda>l. l \<in> A) L)) = length (filter (\<lambda>l. l \<in> A) L)"
    by (rule distinct_card)
  moreover have "set (filter (\<lambda>l. l \<in> A) L) = set L \<inter> A"
    by auto
  ultimately show ?thesis
    by simp
qed

text \<open>
  C2. For the labels \<open>L\<close> of a pull request (each label once), the check of the job
  \<open>require-release-label\<close> succeeds, with exit status 0, iff exactly one label of
  \<open>release:docs\<close>, \<open>release:chore\<close>, \<open>release:fix\<close>, \<open>release:feature\<close>,
  \<open>release:feature-breaking\<close> is in \<open>L\<close>; otherwise it fails with exit status 1.
\<close>

theorem label_gate_exactly_one:
  assumes "distinct L"
  shows "(required_labels_action require_release_label L = Some 0 \<longleftrightarrow>
            card (set L \<inter> {''release:docs'', ''release:chore'', ''release:fix'',
                            ''release:feature'', ''release:feature-breaking''}) = 1)
     \<and> (required_labels_action require_release_label L = Some 1 \<longleftrightarrow>
            card (set L \<inter> {''release:docs'', ''release:chore'', ''release:fix'',
                            ''release:feature'', ''release:feature-breaking''}) \<noteq> 1)"
proof -
  let ?allowed = "set (allowed_labels require_release_label)"
  have allowed: "?allowed = {''release:docs'', ''release:chore'', ''release:fix'',
                            ''release:feature'', ''release:feature-breaking''}"
    unfolding allowed_release_labels by simp
  have "length (filter (\<lambda>l. l \<in> ?allowed) L) = card (set L \<inter> ?allowed)"
    using assms by (rule count_in_distinct)
  then show ?thesis
    unfolding allowed [symmetric]
    by (simp add: required_labels_action_def require_release_label_def)
qed

theorem label_gate_exactly_one_witness:
  "distinct [''bug'', ''release:fix'']
   \<and> required_labels_action require_release_label [''bug'', ''release:fix''] = Some 0
   \<and> distinct ([] :: string list)
   \<and> required_labels_action require_release_label [] = Some 1
   \<and> distinct [''release:fix'', ''release:docs'']
   \<and> required_labels_action require_release_label [''release:fix'', ''release:docs''] = Some 1"
proof -
  have one: "distinct [''bug'', ''release:fix'']"
    and none: "distinct ([] :: string list)"
    and two: "distinct [''release:fix'', ''release:docs'']"
    by simp_all
  from label_gate_exactly_one [OF one]
  have "required_labels_action require_release_label [''bug'', ''release:fix''] = Some 0"
    by simp
  moreover
  from label_gate_exactly_one [OF none]
  have "required_labels_action require_release_label [] = Some 1"
    by simp
  moreover
  from label_gate_exactly_one [OF two]
  have "required_labels_action require_release_label [''release:fix'', ''release:docs''] = Some 1"
    by simp
  ultimately show ?thesis
    using one none two by blast
qed

end
